theory Spec2Isabelle
  imports Main "HOL-Library.Multiset"
begin

section \<open>Strings, paths and numbers of the Go standard library\<close>

text \<open>
  A Go string is a sequence of bytes; it is modelled as a \<open>string\<close> (a list of
  \<open>char\<close>, one per byte). The functions of this section are the library calls of
  the program (packages strings, path/filepath with the separator \<open>/\<close>, strconv, fmt
  and regexp), written out for the arguments the program gives them.
\<close>

definition HasPrefix :: "string \<Rightarrow> string \<Rightarrow> bool" where
  "HasPrefix s pre = (take (length pre) s = pre)"

definition HasSuffix :: "string \<Rightarrow> string \<Rightarrow> bool" where
  "HasSuffix s suf = (length suf \<le> length s \<and> drop (length s - length suf) s = suf)"

text \<open>\<open>strings.Index\<close>: the position of the first occurrence of \<open>sub\<close> in \<open>s\<close>.\<close>

fun Index :: "string \<Rightarrow> string \<Rightarrow> nat option" where
  "Index [] sub = (if sub = [] then Some 0 else None)"
| "Index (c # cs) sub =
     (if HasPrefix (c # cs) sub then Some 0
      else (case Index cs sub of None \<Rightarrow> None | Some i \<Rightarrow> Some (Suc i)))"

text \<open>\<open>strings.Replace(s, old, new, 1)\<close>: the first occurrence of \<open>old\<close> is replaced.\<close>

definition Replace1 :: "string \<Rightarrow> string \<Rightarrow> string \<Rightarrow> string" where
  "Replace1 s old new =
     (case Index s old of
        None \<Rightarrow> s
      | Some i \<Rightarrow> take i s @ new @ drop (i + length old) s)"

definition upperLetters :: string where
  "upperLetters = ''ABCDEFGHIJKLMNOPQRSTUVWXYZ''"

definition lowerLetters :: string where
  "lowerLetters = ''abcdefghijklmnopqrstuvwxyz''"

definition digits :: string where
  "digits = ''0123456789''"

definition isLetter :: "char \<Rightarrow> bool" where
  "isLetter c = (c \<in> set lowerLetters \<or> c \<in> set upperLetters)"

definition isDigit :: "char \<Rightarrow> bool" where
  "isDigit c = (c \<in> set digits)"

text \<open>\<open>strings.ToLower\<close> on ASCII: the letters A to Z are mapped, every other byte is kept.\<close>

definition lowerChar :: "char \<Rightarrow> char" where
  "lowerChar c = (case map_of (zip upperLetters lowerLetters) c of None \<Rightarrow> c | Some l \<Rightarrow> l)"

definition ToLower :: "string \<Rightarrow> string" where
  "ToLower s = map lowerChar s"

text \<open>\<open>filepath.Ext\<close>: the suffix from the last dot of the last path element.\<close>

fun extFrom :: "string \<Rightarrow> string \<Rightarrow> string" where
  "extFrom [] acc = []"
| "extFrom (c # rs) acc =
     (if c = CHR ''/'' then []
      else if c = CHR ''.'' then c # acc
      else extFrom rs (c # acc))"

definition Ext :: "string \<Rightarrow> string" where
  "Ext path = extFrom (rev path) []"

text \<open>\<open>filepath.Base\<close>: the last path element, after the trailing slashes are dropped.\<close>

definition Base :: "string \<Rightarrow> string" where
  "Base path =
     (if path = [] then ''.''
      else (let stripped = rev (dropWhile (\<lambda>c. c = CHR ''/'') (rev path));
                lastel = rev (takeWhile (\<lambda>c. c \<noteq> CHR ''/'') (rev stripped))
            in if lastel = [] then ''/'' else lastel))"

text \<open>\<open>fmt.Sprintf("%d", n)\<close> for a slot number.\<close>

fun itoa :: "nat \<Rightarrow> string" where
  "itoa n = (if n < 10 then [digits ! n] else itoa (n div 10) @ [digits ! (n mod 10)])"

declare itoa.simps [simp del]

definition digitVal :: "char \<Rightarrow> int" where
  "digitVal c = (case map_of (zip digits [0, 1, 2, 3, 4, 5, 6, 7, 8, 9]) c of None \<Rightarrow> 0 | Some d \<Rightarrow> d)"

definition decimalValue :: "string \<Rightarrow> int" where
  "decimalValue ds = foldl (\<lambda>a c. 10 * a + digitVal c) 0 ds"

text \<open>
  \<open>strconv.Atoi\<close> on a string of decimal digits: the value, or an error when it does not
  fit the 64-bit \<open>int\<close>.
\<close>

definition maxInt :: int where
  "maxInt = 2 ^ 63 - 1"

definition Atoi :: "string \<Rightarrow> int option" where
  "Atoi ds = (if decimalValue ds \<le> maxInt then Some (decimalValue ds) else None)"

text \<open>
  \<open>reSlideNumber = regexp.MustCompile(`/[a-zA-Z]+([0-9]+)\.xml`)\<close>. The two character
  classes are disjoint and neither holds the dot, so a match that starts at a given slash
  takes the whole run of letters and the whole run of digits: \<open>matchHere\<close> is the match
  at the head of the string, \<open>FindStringSubmatch\<close> the leftmost one, and the value is
  the text of the capture group.
\<close>

definition matchHere :: "string \<Rightarrow> string option" where
  "matchHere s =
     (case s of
        [] \<Rightarrow> None
      | c # r \<Rightarrow>
          (if c \<noteq> CHR ''/'' then None
           else (let ls = takeWhile isLetter r;
                     r1 = dropWhile isLetter r;
                     ds = takeWhile isDigit r1;
                     r2 = dropWhile isDigit r1
                 in if ls \<noteq> [] \<and> ds \<noteq> [] \<and> HasPrefix r2 ''.xml'' then Some ds else None)))"

fun FindStringSubmatch :: "string \<Rightarrow> string option" where
  "FindStringSubmatch [] = None"
| "FindStringSubmatch (c # cs) =
     (case matchHere (c # cs) of
        Some ds \<Rightarrow> Some ds
      | None \<Rightarrow> FindStringSubmatch cs)"

text \<open>
  \<open>getObjectNumberFromFilename\<close> returns the pair of Go: the number and the error, the
  number being 0 beside an error.
\<close>

definition getObjectNumberFromFilename :: "string \<Rightarrow> int \<times> string option" where
  "getObjectNumberFromFilename fname =
     (case FindStringSubmatch fname of
        None \<Rightarrow> (0, Some (''invalid file name '' @ fname))
      | Some ds \<Rightarrow>
          (case Atoi ds of
             None \<Rightarrow> (0, Some (''invalid slide number '' @ fname))
           | Some slideNumber \<Rightarrow> (slideNumber, None)))"

section \<open>The data model\<close>

record Relationship =
  rId :: string
  rType :: string
  rTarget :: string
  rTargetMode :: string

text \<open>
  A \<open>Relationships\<close> value holds its XML name (space and local name, empty in the zero
  value \<open>Relationships{}\<close>) and the slice of its relationships. A nil slice and an empty
  slice are the same list: the program only ranges over the slice and takes its length.
\<close>

record Relationships =
  XMLName :: "string \<times> string"
  Relationship :: "Relationship list"

definition emptyRelationships :: Relationships where
  "emptyRelationships = \<lparr>XMLName = ([], []), Relationship = []\<rparr>"

text \<open>A \<open>Media\<close> value: the size and the data, \<open>None\<close> for the nil slice.\<close>

record Media =
  msize :: nat
  mdata :: "string option"

record Override =
  PartName :: string
  ContentType :: string

record Types =
  TypesXMLName :: "string \<times> string"
  Default :: "(string \<times> string) list"
  Override :: "Override list"

text \<open>
  The element trees of the etree library: a token is an element (namespace prefix, tag,
  attributes, children) or character data; a document is the list of the children of its
  root. An attribute is the triple of its prefix, key and value.
\<close>

datatype Token =
    Element (eSpace: string) (eTag: string) (eAttr: "(string \<times> string \<times> string) list")
      (eChild: "Token list")
  | CharData string

type_synonym Document = "Token list"

text \<open>An entry of the source archive: its name, the size of its header and its bytes.\<close>

record ZipFile =
  Name :: string
  UncompressedSize64 :: nat
  Data :: string

text \<open>
  The external decoders, as the program calls them on the bytes of an entry; \<open>None\<close> is
  the error the program answers with \<open>log.Fatal\<close>. \<open>unmarshalTypes\<close> decodes into the
  value the document already holds, \<open>tiffToPng\<close> is \<open>tiff.Decode\<close> followed by
  \<open>png.Encode\<close>. Opening and reading an entry of an archive that was opened is taken to
  succeed.
\<close>

record Codec =
  unmarshalRelationships :: "string \<Rightarrow> Relationships option"
  unmarshalTypes :: "string \<Rightarrow> Types \<Rightarrow> Types option"
  readDocument :: "string \<Rightarrow> Document option"
  tiffToPng :: "string \<Rightarrow> string option"

text \<open>
  \<open>PowerpointDoc\<close>. The entries of \<open>sourceFileReader\<close> are the field \<open>sourceFile\<close>;
  a nil document pointer is \<open>None\<close>.
\<close>

record PowerpointDoc =
  sourceFile :: "ZipFile list"
  medias :: "string \<rightharpoonup> Media"
  slideRels :: "Relationships list"
  slideLayoutRels :: "Relationships list"
  slideMasterRels :: "Relationships list"
  presentationRels :: Relationships
  slideMasters :: "Document option list"
  presentation :: "Document option"
  contentTypes :: Types

text \<open>
  The ways a run stops: the two runtime panics of Go the program can raise, and
  \<open>log.Fatal\<close>.
\<close>

datatype failure = IndexOutOfRange | NilDereference | Fatal

definition slideLayoutType :: string where
  "slideLayoutType = ''http://schemas.openxmlformats.org/officeDocument/2006/relationships/slideLayout''"

definition slideMasterType :: string where
  "slideMasterType = ''http://schemas.openxmlformats.org/officeDocument/2006/relationships/slideMaster''"

definition imageType :: string where
  "imageType = ''http://schemas.openxmlformats.org/officeDocument/2006/relationships/image''"

section \<open>Reachability\<close>

text \<open>
  The two loops of \<open>FindUsedLayouts\<close> and \<open>FindUsedMasters\<close>: the inner one over the
  relationships of one set, the outer one over the sets. The write \<open>used[n - 1] = true\<close>
  panics when \<open>n - 1\<close> is outside the slice.
\<close>

fun markRelationship :: "string \<Rightarrow> Relationship list \<Rightarrow> bool list \<Rightarrow> failure + bool list" where
  "markRelationship ty [] used = Inr used"
| "markRelationship ty (rel # rest) used =
     (if rType rel = ty then
        (let number = fst (getObjectNumberFromFilename (rTarget rel)) in
         if number - 1 < 0 \<or> int (length used) \<le> number - 1 then Inl IndexOutOfRange
         else markRelationship ty rest (used[nat (number - 1) := True]))
      else markRelationship ty rest used)"

fun markRelationships :: "string \<Rightarrow> Relationships list \<Rightarrow> bool list \<Rightarrow> failure + bool list" where
  "markRelationships ty [] used = Inr used"
| "markRelationships ty (rels # rest) used =
     (case markRelationship ty (Relationship rels) used of
        Inl e \<Rightarrow> Inl e
      | Inr used' \<Rightarrow> markRelationships ty rest used')"

definition FindUsedLayouts :: "PowerpointDoc \<Rightarrow> failure + bool list" where
  "FindUsedLayouts p =
     markRelationships slideLayoutType (slideRels p) (replicate (length (slideLayoutRels p)) False)"

definition FindUsedMasters :: "PowerpointDoc \<Rightarrow> failure + bool list" where
  "FindUsedMasters p =
     markRelationships slideMasterType (slideLayoutRels p) (replicate (length (slideMasterRels p)) False)"

definition targetNumber :: "Relationship \<Rightarrow> int" where
  "targetNumber rel = fst (getObjectNumberFromFilename (rTarget rel))"

section \<open>The reader\<close>

definition NewPowerpointDoc :: PowerpointDoc where
  "NewPowerpointDoc =
     \<lparr>sourceFile = [], medias = Map.empty, slideRels = [], slideLayoutRels = [],
      slideMasterRels = [], presentationRels = emptyRelationships, slideMasters = [],
      presentation = None,
      contentTypes = \<lparr>TypesXMLName = ([], []), Default = [], Override = []\<rparr>\<rparr>"

text \<open>
  \<open>updateRelationships\<close> and \<open>updateSlideMasters\<close>: the slice grows to \<open>pos\<close> slots
  when it is shorter, then slot \<open>pos - 1\<close> is written, which panics when \<open>pos - 1\<close> is
  not an index of the slice.
\<close>

definition updateRelationships ::
  "Relationships list \<Rightarrow> int \<Rightarrow> Relationships \<Rightarrow> failure + Relationships list" where
  "updateRelationships rels pos r =
     (let newrels = (if int (length rels) < pos
                     then rels @ replicate (nat pos - length rels) emptyRelationships
                     else rels)
      in if pos - 1 < 0 \<or> int (length newrels) \<le> pos - 1 then Inl IndexOutOfRange
         else Inr (newrels[nat (pos - 1) := r]))"

definition updateSlideMasters ::
  "Document option list \<Rightarrow> int \<Rightarrow> Document option \<Rightarrow> failure + Document option list" where
  "updateSlideMasters sms pos sm =
     (let newsms = (if int (length sms) < pos
                    then sms @ replicate (nat pos - length sms) None
                    else sms)
      in if pos - 1 < 0 \<or> int (length newsms) \<le> pos - 1 then Inl IndexOutOfRange
         else Inr (newsms[nat (pos - 1) := sm]))"

definition parseRelationships :: "Codec \<Rightarrow> ZipFile \<Rightarrow> failure + Relationships" where
  "parseRelationships cd f =
     (case unmarshalRelationships cd (Data f) of None \<Rightarrow> Inl Fatal | Some rel \<Rightarrow> Inr rel)"

definition parseAllRelationships ::
  "Codec \<Rightarrow> Relationships list \<Rightarrow> string \<Rightarrow> ZipFile \<Rightarrow> failure + Relationships list" where
  "parseAllRelationships cd rels reltype f =
     (if HasPrefix (Name f) (''ppt/'' @ reltype @ ''s/_rels/'') then
        (case parseRelationships cd f of
           Inl e \<Rightarrow> Inl e
         | Inr rel \<Rightarrow> updateRelationships rels (fst (getObjectNumberFromFilename (Name f))) rel)
      else Inr rels)"

text \<open>The body of the loop of \<open>ParseFile\<close>, for one entry of the archive.\<close>

definition parseEntry :: "Codec \<Rightarrow> PowerpointDoc \<Rightarrow> ZipFile \<Rightarrow> failure + PowerpointDoc" where
  "parseEntry cd p f =
     (if HasPrefix (Name f) ''ppt/media/'' then
        Inr (p\<lparr>medias := (medias p)(Name f \<mapsto> \<lparr>msize = UncompressedSize64 f, mdata = None\<rparr>)\<rparr>)
      else if Name f = ''[Content_Types].xml'' then
        (case unmarshalTypes cd (Data f) (contentTypes p) of
           None \<Rightarrow> Inl Fatal
         | Some t \<Rightarrow> Inr (p\<lparr>contentTypes := t\<rparr>))
      else if HasPrefix (Name f) ''ppt/slideMasters/slideMaster'' then
        (case readDocument cd (Data f) of
           None \<Rightarrow> Inl Fatal
         | Some doc \<Rightarrow>
             (case updateSlideMasters (slideMasters p)
                     (fst (getObjectNumberFromFilename (Name f))) (Some doc) of
                Inl e \<Rightarrow> Inl e
              | Inr sms \<Rightarrow> Inr (p\<lparr>slideMasters := sms\<rparr>)))
      else if Name f = ''ppt/_rels/presentation.xml.rels'' then
        (case parseRelationships cd f of
           Inl e \<Rightarrow> Inl e
         | Inr rel \<Rightarrow> Inr (p\<lparr>presentationRels := rel\<rparr>))
      else if Name f = ''ppt/presentation.xml'' then
        (case readDocument cd (Data f) of
           None \<Rightarrow> Inl Fatal
         | Some doc \<Rightarrow> Inr (p\<lparr>presentation := Some doc\<rparr>))
      else
        (case parseAllRelationships cd (slideRels p) ''slide'' f of
           Inl e \<Rightarrow> Inl e
         | Inr srels \<Rightarrow>
             (case parseAllRelationships cd (slideLayoutRels p) ''slideLayout'' f of
                Inl e \<Rightarrow> Inl e
              | Inr lrels \<Rightarrow>
                  (case parseAllRelationships cd (slideMasterRels p) ''slideMaster'' f of
                     Inl e \<Rightarrow> Inl e
                   | Inr mrels \<Rightarrow>
                       Inr (p\<lparr>slideRels := srels, slideLayoutRels := lrels,
                              slideMasterRels := mrels\<rparr>)))))"

fun parseEntries :: "Codec \<Rightarrow> PowerpointDoc \<Rightarrow> ZipFile list \<Rightarrow> failure + PowerpointDoc" where
  "parseEntries cd p [] = Inr p"
| "parseEntries cd p (f # fs) =
     (case parseEntry cd p f of
        Inl e \<Rightarrow> Inl e
      | Inr p' \<Rightarrow> parseEntries cd p' fs)"

text \<open>\<open>ParseFile\<close> on the entries of an archive that \<open>zip.OpenReader\<close> has opened.\<close>

definition ParseFile :: "Codec \<Rightarrow> PowerpointDoc \<Rightarrow> ZipFile list \<Rightarrow> failure + PowerpointDoc" where
  "ParseFile cd p files = parseEntries cd (p\<lparr>sourceFile := files\<rparr>) files"

section \<open>The transcoder\<close>

definition replaceTargetOf :: "string \<Rightarrow> string \<Rightarrow> Relationship \<Rightarrow> Relationship" where
  "replaceTargetOf oldbasename newbasename rel =
     (if HasSuffix (rTarget rel) oldbasename
      then rel\<lparr>rTarget := Replace1 (rTarget rel) oldbasename newbasename\<rparr>
      else rel)"

definition ReplaceTarget :: "Relationships \<Rightarrow> string \<Rightarrow> string \<Rightarrow> Relationships" where
  "ReplaceTarget r oldbasename newbasename =
     r\<lparr>Relationship := map (replaceTargetOf oldbasename newbasename) (Relationship r)\<rparr>"

text \<open>The test of \<open>ConvertPictures\<close> on an entry: a media file with the extension tiff.\<close>

definition eligible :: "ZipFile \<Rightarrow> bool" where
  "eligible f = (HasPrefix (Name f) ''ppt/media/'' \<and> ToLower (Ext (Name f)) = ''.tiff'')"

text \<open>The body of the loop of \<open>ConvertPictures\<close>, for one entry of the archive.\<close>

definition convertEntry :: "Codec \<Rightarrow> PowerpointDoc \<Rightarrow> ZipFile \<Rightarrow> failure + PowerpointDoc" where
  "convertEntry cd p f =
     (if eligible f then
        (case tiffToPng cd (Data f) of
           None \<Rightarrow> Inl Fatal
         | Some pngout \<Rightarrow>
             (let newfilename = Replace1 (Name f) ''.tiff'' ''.png'';
                  added = (medias p)(newfilename \<mapsto> \<lparr>msize = length pngout, mdata = Some pngout\<rparr>);
                  oldbase = Base (Name f);
                  newbase = Replace1 (Base (Name f)) ''.tiff'' ''.png''
              in Inr (p\<lparr>medias := added(Name f := None),
                        slideRels := map (\<lambda>r. ReplaceTarget r oldbase newbase) (slideRels p),
                        slideLayoutRels :=
                          map (\<lambda>r. ReplaceTarget r oldbase newbase) (slideLayoutRels p),
                        slideMasterRels :=
                          map (\<lambda>r. ReplaceTarget r oldbase newbase) (slideMasterRels p)\<rparr>)))
      else Inr p)"

fun convertEntries :: "Codec \<Rightarrow> PowerpointDoc \<Rightarrow> ZipFile list \<Rightarrow> failure + PowerpointDoc" where
  "convertEntries cd p [] = Inr p"
| "convertEntries cd p (f # fs) =
     (case convertEntry cd p f of
        Inl e \<Rightarrow> Inl e
      | Inr p' \<Rightarrow> convertEntries cd p' fs)"

definition ConvertPictures :: "Codec \<Rightarrow> PowerpointDoc \<Rightarrow> failure + PowerpointDoc" where
  "ConvertPictures cd p = convertEntries cd p (sourceFile p)"

section \<open>The pruning engine\<close>

text \<open>
  \<open>FindElements\<close> of etree for the two paths of the program,
  \<open>//p:sldLayoutId[@r:id='ID']\<close> and \<open>//p:sldMasterId[@r:id='ID']\<close>: the elements at any
  depth with the prefix \<open>p\<close>, the given tag and an attribute \<open>r:id\<close> of the given value,
  in document order (for an \<open>ID\<close> that holds none of the characters the path syntax
  reads).
\<close>

fun selected :: "string \<Rightarrow> string \<Rightarrow> Token \<Rightarrow> bool" where
  "selected tag ident (Element sp t attrs ch) =
     (sp = ''p'' \<and> t = tag \<and> (''r'', ''id'', ident) \<in> set attrs)"
| "selected tag ident (CharData txt) = False"

fun FindElements :: "(Token \<Rightarrow> bool) \<Rightarrow> Token \<Rightarrow> Token list" where
  "FindElements sel (Element sp t attrs ch) =
     (if sel (Element sp t attrs ch) then [Element sp t attrs ch] else []) @
     concat (map (FindElements sel) ch)"
| "FindElements sel (CharData txt) = []"

text \<open>
  The loop \<open>for e in FindElements: e.Parent().RemoveChild(e)\<close> takes every found element
  out of the child list of its parent. \<open>RemoveChild\<close> returns nil only for a token that
  is not a child of the receiver, and a found element is a child of its parent (also
  when the parent was found and removed before it), so the \<open>log.Fatal\<close> of the loop is
  never reached and the loop is the function below: the tree without the found elements.
\<close>

fun removeFound :: "(Token \<Rightarrow> bool) \<Rightarrow> Token \<Rightarrow> Token" where
  "removeFound sel (Element sp t attrs ch) =
     Element sp t attrs (map (removeFound sel) (filter (\<lambda>c. \<not> sel c) ch))"
| "removeFound sel (CharData txt) = CharData txt"

definition removeLayoutFromMaster :: "Document \<Rightarrow> string \<Rightarrow> Document" where
  "removeLayoutFromMaster master ident =
     map (removeFound (selected ''sldLayoutId'' ident))
       (filter (\<lambda>c. \<not> selected ''sldLayoutId'' ident c) master)"

definition removeMasterFromPresentation :: "Document \<Rightarrow> string \<Rightarrow> Document" where
  "removeMasterFromPresentation pres ident =
     map (removeFound (selected ''sldMasterId'' ident))
       (filter (\<lambda>c. \<not> selected ''sldMasterId'' ident c) pres)"

text \<open>
  The inner loops \<open>for j, o := range ...: if match { copy; truncate; break }\<close>: the first
  matching element is deleted, the others are kept.
\<close>

fun removeOverride :: "string \<Rightarrow> Override list \<Rightarrow> Override list" where
  "removeOverride name [] = []"
| "removeOverride name (ov # rest) =
     (if PartName ov = name then rest else ov # removeOverride name rest)"

fun removeTarget :: "string \<Rightarrow> Relationship list \<Rightarrow> Relationship list" where
  "removeTarget target [] = []"
| "removeTarget target (relm # rest) =
     (if rTarget relm = target then rest else relm # removeTarget target rest)"

definition layoutPartName :: "nat \<Rightarrow> string" where
  "layoutPartName i = ''/ppt/slideLayouts/slideLayout'' @ itoa (i + 1) @ ''.xml''"

definition layoutTarget :: "nat \<Rightarrow> string" where
  "layoutTarget i = ''../slideLayouts/slideLayout'' @ itoa (i + 1) @ ''.xml''"

definition masterPartName :: "nat \<Rightarrow> string" where
  "masterPartName i = ''/ppt/slideMasters/slideMaster'' @ itoa (i + 1) @ ''.xml''"

definition masterTarget :: "nat \<Rightarrow> string" where
  "masterTarget i = ''slideMasters/slideMaster'' @ itoa (i + 1) @ ''.xml''"

text \<open>
  The loop over the master relationship sets in \<open>RemoveUnusedLayouts\<close>, from master
  \<open>j\<close> on: in a set that holds a relationship with the target, the reference is removed
  from the tree \<open>slideMasters[j]\<close> (a panic when the slot is missing or nil) and the
  relationship is deleted.
\<close>

fun removeFromMasters ::
  "string \<Rightarrow> nat \<Rightarrow> Relationships list \<Rightarrow> Document option list \<Rightarrow>
   failure + Relationships list \<times> Document option list" where
  "removeFromMasters target j [] sms = Inr ([], sms)"
| "removeFromMasters target j (relsm # rest) sms =
     (case find (\<lambda>relm. rTarget relm = target) (Relationship relsm) of
        None \<Rightarrow>
          (case removeFromMasters target (Suc j) rest sms of
             Inl e \<Rightarrow> Inl e
           | Inr (rest', sms') \<Rightarrow> Inr (relsm # rest', sms'))
      | Some relm \<Rightarrow>
          (if length sms \<le> j then Inl IndexOutOfRange
           else (case sms ! j of
                   None \<Rightarrow> Inl NilDereference
                 | Some master \<Rightarrow>
                     (case removeFromMasters target (Suc j) rest
                             (sms[j := Some (removeLayoutFromMaster master (rId relm))]) of
                        Inl e \<Rightarrow> Inl e
                      | Inr (rest', sms') \<Rightarrow>
                          Inr (relsm\<lparr>Relationship := removeTarget target (Relationship relsm)\<rparr>
                                 # rest', sms')))))"

text \<open>The body of the loop of \<open>RemoveUnusedLayouts\<close> for the unused slot \<open>i\<close>.\<close>

definition removeLayout :: "nat \<Rightarrow> PowerpointDoc \<Rightarrow> failure + PowerpointDoc" where
  "removeLayout i p =
     (let ct = (contentTypes p)\<lparr>Override :=
                  removeOverride (layoutPartName i) (Override (contentTypes p))\<rparr>
      in case removeFromMasters (layoutTarget i) 0 (slideMasterRels p) (slideMasters p) of
           Inl e \<Rightarrow> Inl e
         | Inr (mrels, sms) \<Rightarrow>
             (if length (slideLayoutRels p) \<le> i then Inl IndexOutOfRange
              else Inr (p\<lparr>contentTypes := ct, slideMasterRels := mrels, slideMasters := sms,
                         slideLayoutRels := (slideLayoutRels p)[i := emptyRelationships]\<rparr>)))"

text \<open>The loop \<open>for i, b := range used: if !b { body }\<close>, from slot \<open>i\<close> on.\<close>

fun forUnused ::
  "(nat \<Rightarrow> PowerpointDoc \<Rightarrow> failure + PowerpointDoc) \<Rightarrow> nat \<Rightarrow> bool list \<Rightarrow> PowerpointDoc \<Rightarrow>
   failure + PowerpointDoc" where
  "forUnused body i [] p = Inr p"
| "forUnused body i (b # bs) p =
     (if \<not> b then
        (case body i p of
           Inl e \<Rightarrow> Inl e
         | Inr p' \<Rightarrow> forUnused body (Suc i) bs p')
      else forUnused body (Suc i) bs p)"

definition RemoveUnusedLayouts :: "PowerpointDoc \<Rightarrow> failure + PowerpointDoc" where
  "RemoveUnusedLayouts p =
     (case FindUsedLayouts p of
        Inl e \<Rightarrow> Inl e
      | Inr usedSlideLayouts \<Rightarrow> forUnused removeLayout 0 usedSlideLayouts p)"

text \<open>The body of the loop of \<open>RemoveUnusedMasters\<close> for the unused slot \<open>i\<close>.\<close>

definition removeMaster :: "nat \<Rightarrow> PowerpointDoc \<Rightarrow> failure + PowerpointDoc" where
  "removeMaster i p =
     (let ct = (contentTypes p)\<lparr>Override :=
                  removeOverride (masterPartName i) (Override (contentTypes p))\<rparr>;
          found = find (\<lambda>relm. rTarget relm = masterTarget i) (Relationship (presentationRels p))
      in case (case found of
                 None \<Rightarrow> Inr (presentation p, presentationRels p)
               | Some relm \<Rightarrow>
                   (case presentation p of
                      None \<Rightarrow> Inl NilDereference
                    | Some pres \<Rightarrow>
                        Inr (Some (removeMasterFromPresentation pres (rId relm)),
                             (presentationRels p)\<lparr>Relationship :=
                                removeTarget (masterTarget i) (Relationship (presentationRels p))\<rparr>)))
         of
           Inl e \<Rightarrow> Inl e
         | Inr (pres', prels) \<Rightarrow>
             (if length (slideMasterRels p) \<le> i \<or> length (slideMasters p) \<le> i
              then Inl IndexOutOfRange
              else Inr (p\<lparr>contentTypes := ct, presentation := pres', presentationRels := prels,
                         slideMasterRels := (slideMasterRels p)[i := emptyRelationships],
                         slideMasters := (slideMasters p)[i := None]\<rparr>)))"

definition RemoveUnusedMasters :: "PowerpointDoc \<Rightarrow> failure + PowerpointDoc" where
  "RemoveUnusedMasters p =
     (case FindUsedMasters p of
        Inl e \<Rightarrow> Inl e
      | Inr usedSlideMasters \<Rightarrow> forUnused removeMaster 0 usedSlideMasters p)"

text \<open>
  \<open>FindUsedMedias\<close>: the map that holds \<open>true\<close> at the key of every image relationship
  of the slide, layout and master sets.
\<close>

definition FindUsedMedias :: "PowerpointDoc \<Rightarrow> (string \<rightharpoonup> bool)" where
  "FindUsedMedias p =
     foldl (\<lambda>usedMedias rels.
              foldl (\<lambda>usedMedias rel.
                       if rType rel = imageType
                       then usedMedias(''ppt/media/'' @ Base (rTarget rel) \<mapsto> True)
                       else usedMedias)
                usedMedias (Relationship rels))
       Map.empty (slideRels p @ slideLayoutRels p @ slideMasterRels p)"

text \<open>\<open>RemoveUnusedMedias\<close> deletes every key of the media index the map does not hold.\<close>

definition RemoveUnusedMedias :: "PowerpointDoc \<Rightarrow> PowerpointDoc" where
  "RemoveUnusedMedias p =
     p\<lparr>medias := (\<lambda>k. if FindUsedMedias p k = None then None else medias p k)\<rparr>"

text \<open>The three calls of \<open>main\<close> under the flag \<open>layouts\<close>, in their order.\<close>

definition cleanLayouts :: "PowerpointDoc \<Rightarrow> failure + PowerpointDoc" where
  "cleanLayouts p =
     (case RemoveUnusedLayouts p of
        Inl e \<Rightarrow> Inl e
      | Inr p1 \<Rightarrow>
          (case RemoveUnusedMasters p1 of
             Inl e \<Rightarrow> Inl e
           | Inr p2 \<Rightarrow> Inr (RemoveUnusedMedias p2)))"

section \<open>The writer\<close>

text \<open>
  An entry of the output archive: its name and what is written into it, the serialisers
  being functions of the value they are given.
\<close>

datatype content =
    Bytes string
  | RelationshipsXml Relationships
  | TypesXml Types
  | DocumentXml Document

type_synonym entry = "string \<times> content"

definition rewritten :: "string \<Rightarrow> bool" where
  "rewritten name =
     (name = ''[Content_Types].xml'' \<or> HasPrefix name ''ppt/slides/_rels/'' \<or>
      HasPrefix name ''ppt/slideLayouts/_rels/'' \<or> HasPrefix name ''ppt/_rels/'' \<or>
      HasPrefix name ''ppt/slideMasters/'' \<or> name = ''ppt/presentation.xml'')"

text \<open>
  The test on a layout body in \<open>SaveFile\<close>: the read \<open>slideLayoutRels[n - 1]\<close> panics
  when \<open>n - 1\<close> is not an index of the slice, and otherwise tells whether the set of the
  layout is empty.
\<close>

definition layoutRemoved :: "PowerpointDoc \<Rightarrow> string \<Rightarrow> failure + bool" where
  "layoutRemoved p name =
     (let layoutNumber = fst (getObjectNumberFromFilename name) in
      if layoutNumber - 1 < 0 \<or> int (length (slideLayoutRels p)) \<le> layoutNumber - 1
      then Inl IndexOutOfRange
      else Inr (length (Relationship (slideLayoutRels p ! nat (layoutNumber - 1))) < 1))"

text \<open>
  The entries \<open>SaveFile\<close> takes for layout bodies, and the numbers that are slots of
  the layout relationships.
\<close>

definition layoutBody :: "string \<Rightarrow> bool" where
  "layoutBody name =
     (HasPrefix name ''ppt/slideLayouts/'' \<and> \<not> HasPrefix name ''ppt/slideLayouts/_rels/'')"

definition layoutInRange :: "PowerpointDoc \<Rightarrow> string \<Rightarrow> bool" where
  "layoutInRange p name =
     (1 \<le> fst (getObjectNumberFromFilename name) \<and>
      fst (getObjectNumberFromFilename name) \<le> int (length (slideLayoutRels p)))"

definition copyFile :: "ZipFile \<Rightarrow> failure + entry list \<Rightarrow> failure + entry list" where
  "copyFile f rest =
     (case rest of
        Inl e \<Rightarrow> Inl e
      | Inr out \<Rightarrow> Inr ((Name f, Bytes (Data f)) # out))"

text \<open>The first loop of \<open>SaveFile\<close>: the entries copied from the source archive.\<close>

fun copyFiles :: "PowerpointDoc \<Rightarrow> ZipFile list \<Rightarrow> failure + entry list" where
  "copyFiles p [] = Inr []"
| "copyFiles p (f # fs) =
     (if rewritten (Name f) then copyFiles p fs
      else if HasPrefix (Name f) ''ppt/media/'' \<and> medias p (Name f) = None then copyFiles p fs
      else if HasPrefix (Name f) ''ppt/slideLayouts/'' then
        (case layoutRemoved p (Name f) of
           Inl e \<Rightarrow> Inl e
         | Inr removed \<Rightarrow>
             (if removed then copyFiles p fs else copyFile f (copyFiles p fs)))
      else copyFile f (copyFiles p fs))"

text \<open>
  The loop over the media index. Go leaves the order in which a map is ranged over open;
  \<open>keys\<close> is that order, a list of the keys of the index.
\<close>

fun newMedias :: "PowerpointDoc \<Rightarrow> string list \<Rightarrow> entry list" where
  "newMedias p [] = []"
| "newMedias p (k # ks) =
     (case medias p k of
        None \<Rightarrow> newMedias p ks
      | Some m \<Rightarrow>
          (case mdata m of
             None \<Rightarrow> newMedias p ks
           | Some d \<Rightarrow> (k, Bytes d) # newMedias p ks))"

definition rangesOver :: "string list \<Rightarrow> (string \<rightharpoonup> Media) \<Rightarrow> bool" where
  "rangesOver keys m = (distinct keys \<and> set keys = dom m)"

definition hasData :: "PowerpointDoc \<Rightarrow> string \<Rightarrow> bool" where
  "hasData p k = (case medias p k of None \<Rightarrow> False | Some m \<Rightarrow> mdata m \<noteq> None)"

definition relsPath :: "string \<Rightarrow> nat \<Rightarrow> string" where
  "relsPath reltype i = ''ppt/'' @ reltype @ ''s/_rels/'' @ reltype @ itoa (i + 1) @ ''.xml.rels''"

definition masterPath :: "nat \<Rightarrow> string" where
  "masterPath i = ''ppt/slideMasters/slideMaster'' @ itoa (i + 1) @ ''.xml''"

fun saveAllRelationships :: "nat \<Rightarrow> Relationships list \<Rightarrow> string \<Rightarrow> entry list" where
  "saveAllRelationships i [] reltype = []"
| "saveAllRelationships i (r # rels) reltype =
     (if length (Relationship r) = 0 then saveAllRelationships (Suc i) rels reltype
      else (relsPath reltype i, RelationshipsXml r) # saveAllRelationships (Suc i) rels reltype)"

fun saveSlideMasters :: "nat \<Rightarrow> Document option list \<Rightarrow> entry list" where
  "saveSlideMasters i [] = []"
| "saveSlideMasters i (sm # sms) =
     (case sm of
        None \<Rightarrow> saveSlideMasters (Suc i) sms
      | Some doc \<Rightarrow>
          (masterPath i, DocumentXml doc) # saveSlideMasters (Suc i) sms)"

text \<open>
  \<open>SaveFile\<close>: the entries written, in the order of the writes. Creating an entry of the
  output archive is taken to succeed; writing a nil presentation tree panics.
\<close>

definition SaveFile :: "string list \<Rightarrow> PowerpointDoc \<Rightarrow> failure + entry list" where
  "SaveFile keys p =
     (case copyFiles p (sourceFile p) of
        Inl e \<Rightarrow> Inl e
      | Inr copied \<Rightarrow>
          (case presentation p of
             None \<Rightarrow> Inl NilDereference
           | Some pres \<Rightarrow>
               Inr (copied @ newMedias p keys @
                    saveAllRelationships 0 (slideRels p) ''slide'' @
                    saveAllRelationships 0 (slideLayoutRels p) ''slideLayout'' @
                    saveAllRelationships 0 (slideMasterRels p) ''slideMaster'' @
                    [(''ppt/_rels/presentation.xml.rels'', RelationshipsXml (presentationRels p)),
                     (''[Content_Types].xml'', TypesXml (contentTypes p))] @
                    saveSlideMasters 0 (slideMasters p) @
                    [(''ppt/presentation.xml'', DocumentXml pres)])))"

section \<open>Example packages\<close>

definition relationshipsName :: "string \<times> string" where
  "relationshipsName =
     (''http://schemas.openxmlformats.org/package/2006/relationships'', ''Relationships'')"

definition rel :: "string \<Rightarrow> string \<Rightarrow> string \<Rightarrow> Relationship" where
  "rel ident ty target = \<lparr>rId = ident, rType = ty, rTarget = target, rTargetMode = []\<rparr>"

definition rels :: "Relationship list \<Rightarrow> Relationships" where
  "rels rs = \<lparr>XMLName = relationshipsName, Relationship = rs\<rparr>"

text \<open>One slide that uses layout 1, and one layout slot.\<close>

definition oneLayoutDoc :: PowerpointDoc where
  "oneLayoutDoc =
     NewPowerpointDoc
       \<lparr>slideRels := [rels [rel ''rId1'' slideLayoutType ''../slideLayouts/slideLayout1.xml'']],
        slideLayoutRels := [rels [rel ''rId1'' slideMasterType ''../slideMasters/slideMaster1.xml'']]\<rparr>"

definition override :: "string \<Rightarrow> string \<Rightarrow> Override" where
  "override name ty = \<lparr>PartName = name, ContentType = ty\<rparr>"

definition layoutIdElement :: "string \<Rightarrow> Token" where
  "layoutIdElement ident = Element ''p'' ''sldLayoutId'' [(''r'', ''id'', ident)] []"

definition masterTree :: "string list \<Rightarrow> Document" where
  "masterTree idents =
     [Element ''p'' ''sldMaster'' []
        [Element ''p'' ''sldLayoutIdLst'' [] (map layoutIdElement idents)]]"

definition presentationTree :: "string list \<Rightarrow> Document" where
  "presentationTree idents =
     [Element ''p'' ''presentation'' []
        [Element ''p'' ''sldMasterIdLst'' []
           (map (\<lambda>ident. Element ''p'' ''sldMasterId'' [(''r'', ''id'', ident)] []) idents)]]"

text \<open>
  One slide that uses layout 1, two layouts of master 1, and the manifest, the master
  tree and the presentation of such a package.
\<close>

definition twoLayoutDoc :: PowerpointDoc where
  "twoLayoutDoc =
     NewPowerpointDoc
       \<lparr>slideRels := [rels [rel ''rId1'' slideLayoutType ''../slideLayouts/slideLayout1.xml'']],
        slideLayoutRels :=
          [rels [rel ''rId1'' slideMasterType ''../slideMasters/slideMaster1.xml''],
           rels [rel ''rId1'' slideMasterType ''../slideMasters/slideMaster1.xml'']],
        slideMasterRels :=
          [rels [rel ''rId1'' slideLayoutType ''../slideLayouts/slideLayout1.xml'',
                 rel ''rId2'' slideLayoutType ''../slideLayouts/slideLayout2.xml'']],
        presentationRels := rels [rel ''rId1'' slideMasterType ''slideMasters/slideMaster1.xml''],
        slideMasters := [Some (masterTree [''rId1'', ''rId2''])],
        presentation := Some (presentationTree [''rId1'']),
        contentTypes :=
          \<lparr>TypesXMLName = ([], ''Types''), Default = [],
           Override = [override ''/ppt/slideLayouts/slideLayout1.xml'' ''layout'',
                       override ''/ppt/slideLayouts/slideLayout2.xml'' ''layout'',
                       override ''/ppt/slideMasters/slideMaster1.xml'' ''master'']\<rparr>\<rparr>"

text \<open>
  A codec that decodes every entry: a relationship file to one set without
  relationships, an image to the bytes \<open>png\<close>.
\<close>

definition exampleCodec :: Codec where
  "exampleCodec =
     \<lparr>unmarshalRelationships = (\<lambda>bytes. Some (rels [])),
      unmarshalTypes = (\<lambda>bytes t. Some t),
      readDocument = (\<lambda>bytes. Some []),
      tiffToPng = (\<lambda>bytes. Some ''png'')\<rparr>"

definition zipFile :: "string \<Rightarrow> string \<Rightarrow> ZipFile" where
  "zipFile name bytes = \<lparr>Name = name, UncompressedSize64 = length bytes, Data = bytes\<rparr>"

text \<open>
  A package with the picture \<open>ppt/media/image1.TIFF\<close> (the extension in capitals), which
  its slide shows.
\<close>

definition upperTiffDoc :: PowerpointDoc where
  "upperTiffDoc =
     NewPowerpointDoc
       \<lparr>sourceFile := [zipFile ''ppt/media/image1.TIFF'' ''tiff''],
        medias := [''ppt/media/image1.TIFF'' \<mapsto> \<lparr>msize = 4, mdata = None\<rparr>],
        slideRels := [rels [rel ''rId1'' imageType ''../media/image1.TIFF'']]\<rparr>"



text \<open>
  A package whose archive holds the body and the relationships of layout 1, with one
  layout slot and a presentation.
\<close>

definition layoutBodyDoc :: PowerpointDoc where
  "layoutBodyDoc =
     NewPowerpointDoc
       \<lparr>sourceFile := [zipFile ''ppt/slideLayouts/slideLayout1.xml'' ''layout'',
                       zipFile ''ppt/slideLayouts/_rels/slideLayout1.xml.rels'' ''rels''],
        slideLayoutRels := [rels [rel ''rId1'' slideMasterType ''../slideMasters/slideMaster1.xml'']],
        presentation := Some (presentationTree [])\<rparr>"

text \<open>
  A package after the conversion of two pictures: the media index holds the new bytes
  of both.
\<close>

definition twoPngDoc :: PowerpointDoc where
  "twoPngDoc =
     NewPowerpointDoc
       \<lparr>medias := [''ppt/media/image1.png'' \<mapsto> \<lparr>msize = 1, mdata = Some ''A''\<rparr>,
                   ''ppt/media/image2.png'' \<mapsto> \<lparr>msize = 1, mdata = Some ''B''\<rparr>],
        presentation := Some (presentationTree [])\<rparr>"

section \<open>Numbers of file names\<close>

lemma number_slideLayout1:
  "getObjectNumberFromFilename ''../slideLayouts/slideLayout1.xml'' = (1, None)"
  by code_simp

lemma number_error_is_zero:
  "snd (getObjectNumberFromFilename fname) \<noteq> None \<Longrightarrow> fst (getObjectNumberFromFilename fname) = 0"
  by (simp add: getObjectNumberFromFilename_def split: option.splits)

section \<open>Reachability: the marking loops\<close>

lemma markRelationship_length:
  "markRelationship ty rs used = Inr used' \<Longrightarrow> length used' = length used"
  by (induction rs arbitrary: used) (auto simp: Let_def split: if_splits)

lemma markRelationship_failure:
  "markRelationship ty rs used = Inl e \<Longrightarrow> e = IndexOutOfRange"
  by (induction rs arbitrary: used) (auto simp: Let_def split: if_splits)

lemma markRelationship_returns:
  "(\<exists>used'. markRelationship ty rs used = Inr used') \<longleftrightarrow>
   (\<forall>r\<in>set rs. rType r = ty \<longrightarrow>
      1 \<le> targetNumber r \<and> targetNumber r \<le> int (length used))"
proof (induction rs arbitrary: used)
  case Nil
  then show ?case by simp
next
  case (Cons r rest)
  show ?case
  proof (cases "rType r = ty")
    case False
    then show ?thesis using Cons.IH [of used] by simp
  next
    case True
    show ?thesis
    proof (cases "1 \<le> targetNumber r \<and> targetNumber r \<le> int (length used)")
      case False
      then show ?thesis using True by (auto simp: targetNumber_def Let_def)
    next
      case inside: True
      then show ?thesis
        using True Cons.IH [of "used[nat (targetNumber r - 1) := True]"]
        by (auto simp: targetNumber_def Let_def)
    qed
  qed
qed

lemma markRelationship_marks:
  "markRelationship ty rs used = Inr used' \<Longrightarrow> i < length used \<Longrightarrow>
   used' ! i \<longleftrightarrow> (used ! i \<or> (\<exists>r\<in>set rs. rType r = ty \<and> targetNumber r = int i + 1))"
proof (induction rs arbitrary: used)
  case Nil
  then show ?case by simp
next
  case (Cons r rest)
  show ?case
  proof (cases "rType r = ty")
    case False
    then show ?thesis using Cons by simp
  next
    case True
    let ?n = "targetNumber r"
    from Cons.prems True have inside: "\<not> (?n - 1 < 0 \<or> int (length used) \<le> ?n - 1)"
      and rest: "markRelationship ty rest (used[nat (?n - 1) := True]) = Inr used'"
      by (auto simp: targetNumber_def Let_def split: if_splits)
    have "used' ! i \<longleftrightarrow> ((used[nat (?n - 1) := True]) ! i \<or>
        (\<exists>r\<in>set rest. rType r = ty \<and> targetNumber r = int i + 1))"
      using Cons.IH [OF rest] Cons.prems(2) by simp
    moreover have "(used[nat (?n - 1) := True]) ! i \<longleftrightarrow> (used ! i \<or> ?n = int i + 1)"
      using inside Cons.prems(2) by (auto simp: nth_list_update)
    ultimately show ?thesis using True by auto
  qed
qed

lemma markRelationships_length:
  "markRelationships ty rss used = Inr used' \<Longrightarrow> length used' = length used"
  by (induction rss arbitrary: used) (auto split: sum.splits dest: markRelationship_length)

lemma markRelationships_failure:
  "markRelationships ty rss used = Inl e \<Longrightarrow> e = IndexOutOfRange"
  by (induction rss arbitrary: used) (auto split: sum.splits dest: markRelationship_failure)

lemma markRelationships_returns:
  "(\<exists>used'. markRelationships ty rss used = Inr used') \<longleftrightarrow>
   (\<forall>rs\<in>set rss. \<forall>r\<in>set (Relationship rs). rType r = ty \<longrightarrow>
      1 \<le> targetNumber r \<and> targetNumber r \<le> int (length used))"
proof (induction rss arbitrary: used)
  case Nil
  then show ?case by simp
next
  case (Cons rs rest)
  show ?case
  proof (cases "markRelationship ty (Relationship rs) used")
    case (Inl e)
    then have "\<not> (\<exists>u. markRelationship ty (Relationship rs) used = Inr u)" by simp
    then show ?thesis using Inl markRelationship_returns [of ty "Relationship rs" used] by auto
  next
    case (Inr u)
    then have len: "length u = length used" by (rule markRelationship_length)
    have "\<exists>u. markRelationship ty (Relationship rs) used = Inr u" using Inr by simp
    then have here: "\<forall>r\<in>set (Relationship rs). rType r = ty \<longrightarrow>
      1 \<le> targetNumber r \<and> targetNumber r \<le> int (length used)"
      using markRelationship_returns [of ty "Relationship rs" used] by simp
    show ?thesis using Inr Cons.IH [of u] len here by simp
  qed
qed

lemma markRelationships_marks:
  "markRelationships ty rss used = Inr used' \<Longrightarrow> i < length used \<Longrightarrow>
   used' ! i \<longleftrightarrow> (used ! i \<or>
     (\<exists>rs\<in>set rss. \<exists>r\<in>set (Relationship rs). rType r = ty \<and> targetNumber r = int i + 1))"
proof (induction rss arbitrary: used)
  case Nil
  then show ?case by simp
next
  case (Cons rs rest)
  from Cons.prems(1) obtain u where
    u: "markRelationship ty (Relationship rs) used = Inr u" and
    rest: "markRelationships ty rest u = Inr used'"
    by (auto split: sum.splits)
  have len: "length u = length used" using u by (rule markRelationship_length)
  have "used' ! i \<longleftrightarrow> (u ! i \<or>
     (\<exists>rs\<in>set rest. \<exists>r\<in>set (Relationship rs). rType r = ty \<and> targetNumber r = int i + 1))"
    using Cons.IH [OF rest] Cons.prems(2) len by simp
  moreover have "u ! i \<longleftrightarrow> (used ! i \<or>
     (\<exists>r\<in>set (Relationship rs). rType r = ty \<and> targetNumber r = int i + 1))"
    using markRelationship_marks [OF u Cons.prems(2)] .
  ultimately show ?case by auto
qed

section \<open>C9: when the layout reachability query returns\<close>

text \<open>
  Claim C9. \<open>FindUsedLayouts\<close> writes \<open>usedSlideLayouts[n - 1]\<close> with no bounds check,
  \<open>n\<close> being the number taken from the target of a layout relationship of a slide, and 0
  when no number can be taken from it. The query returns exactly when every
  relationship of the slideLayout type in every slide set has a target with
  \<open>1 \<le> n \<le> length slideLayoutRels\<close>; on every other document it panics with an index
  out of range.
\<close>

theorem FindUsedLayouts_returns_iff_in_range:
  "((\<exists>used. FindUsedLayouts p = Inr used) \<longleftrightarrow>
      (\<forall>rs\<in>set (slideRels p). \<forall>r\<in>set (Relationship rs). rType r = slideLayoutType \<longrightarrow>
         1 \<le> fst (getObjectNumberFromFilename (rTarget r)) \<and>
         fst (getObjectNumberFromFilename (rTarget r)) \<le> int (length (slideLayoutRels p)))) \<and>
   ((\<nexists>used. FindUsedLayouts p = Inr used) \<longleftrightarrow> FindUsedLayouts p = Inl IndexOutOfRange) \<and>
   (snd (getObjectNumberFromFilename fname) \<noteq> None \<longrightarrow>
      fst (getObjectNumberFromFilename fname) = 0)"
proof (intro conjI)
  show "(\<exists>used. FindUsedLayouts p = Inr used) \<longleftrightarrow>
      (\<forall>rs\<in>set (slideRels p). \<forall>r\<in>set (Relationship rs). rType r = slideLayoutType \<longrightarrow>
         1 \<le> fst (getObjectNumberFromFilename (rTarget r)) \<and>
         fst (getObjectNumberFromFilename (rTarget r)) \<le> int (length (slideLayoutRels p)))"
    using markRelationships_returns
      [of slideLayoutType "slideRels p" "replicate (length (slideLayoutRels p)) False"]
    by (simp add: FindUsedLayouts_def targetNumber_def)
  show "(\<nexists>used. FindUsedLayouts p = Inr used) \<longleftrightarrow> FindUsedLayouts p = Inl IndexOutOfRange"
    by (cases "FindUsedLayouts p")
      (auto simp: FindUsedLayouts_def dest: markRelationships_failure)
  show "snd (getObjectNumberFromFilename fname) \<noteq> None \<longrightarrow>
      fst (getObjectNumberFromFilename fname) = 0"
    using number_error_is_zero by blast
qed

theorem FindUsedLayouts_returns_iff_in_range_witness:
  "(\<exists>used. FindUsedLayouts oneLayoutDoc = Inr used) \<and>
   FindUsedLayouts (oneLayoutDoc\<lparr>slideLayoutRels := []\<rparr>) = Inl IndexOutOfRange \<and>
   getObjectNumberFromFilename ''ppt/slides/_rels/foo.xml.rels'' =
     (0, Some ''invalid file name ppt/slides/_rels/foo.xml.rels'')"
proof -
  have ok: "\<exists>used. FindUsedLayouts oneLayoutDoc = Inr used"
    using FindUsedLayouts_returns_iff_in_range [of oneLayoutDoc "[]"]
    by (simp add: oneLayoutDoc_def NewPowerpointDoc_def rels_def rel_def number_slideLayout1)
  have "\<nexists>used. FindUsedLayouts (oneLayoutDoc\<lparr>slideLayoutRels := []\<rparr>) = Inr used"
    using FindUsedLayouts_returns_iff_in_range [of "oneLayoutDoc\<lparr>slideLayoutRels := []\<rparr>" "[]"]
    by (simp add: oneLayoutDoc_def NewPowerpointDoc_def rels_def rel_def number_slideLayout1)
  then have bad: "FindUsedLayouts (oneLayoutDoc\<lparr>slideLayoutRels := []\<rparr>) = Inl IndexOutOfRange"
    using FindUsedLayouts_returns_iff_in_range [of "oneLayoutDoc\<lparr>slideLayoutRels := []\<rparr>" "[]"]
    by blast
  have "getObjectNumberFromFilename ''ppt/slides/_rels/foo.xml.rels'' =
     (0, Some ''invalid file name ppt/slides/_rels/foo.xml.rels'')"
    by code_simp
  with ok bad show ?thesis by blast
qed

section \<open>Reading a result\<close>

lemma returns_with:
  "map_sum id g x = Inr v \<Longrightarrow> \<exists>y. x = Inr y \<and> g y = v"
  by (cases x) auto

section \<open>The layout pass and the layout slots\<close>

lemma removeLayout_layouts:
  "removeLayout i p = Inr p' \<Longrightarrow>
   slideLayoutRels p' = (slideLayoutRels p)[i := emptyRelationships] \<and> slideRels p' = slideRels p"
  by (auto simp: removeLayout_def Let_def split: sum.splits if_splits)

lemma forUnused_removeLayout_layouts:
  "forUnused removeLayout i used p = Inr p' \<Longrightarrow>
   slideRels p' = slideRels p \<and>
   length (slideLayoutRels p') = length (slideLayoutRels p) \<and>
   (\<forall>k<length (slideLayoutRels p). slideLayoutRels p' ! k =
      (if i \<le> k \<and> k < i + length used \<and> \<not> used ! (k - i) then emptyRelationships
       else slideLayoutRels p ! k))"
proof (induction used arbitrary: i p)
  case Nil
  then show ?case by auto
next
  case (Cons b bs)
  show ?case
  proof (cases b)
    case True
    with Cons.prems have rest: "forUnused removeLayout (Suc i) bs p = Inr p'" by simp
    have "\<And>k. i \<le> k \<and> k < i + length (b # bs) \<and> \<not> (b # bs) ! (k - i) \<longleftrightarrow>
             Suc i \<le> k \<and> k < Suc i + length bs \<and> \<not> bs ! (k - Suc i)"
      using True by (auto simp: nth_Cons')
    then show ?thesis using Cons.IH [OF rest] by simp
  next
    case False
    with Cons.prems obtain p1 where
      p1: "removeLayout i p = Inr p1" and rest: "forUnused removeLayout (Suc i) bs p1 = Inr p'"
      by (auto split: sum.splits)
    note l1 = removeLayout_layouts [OF p1]
    have split: "\<And>k. i \<le> k \<and> k < i + length (b # bs) \<and> \<not> (b # bs) ! (k - i) \<longleftrightarrow>
             k = i \<or> (Suc i \<le> k \<and> k < Suc i + length bs \<and> \<not> bs ! (k - Suc i))"
      using False by (auto simp: nth_Cons')
    show ?thesis
      using Cons.IH [OF rest] l1 False by (auto simp: split nth_list_update)
  qed
qed

lemma FindUsedLayouts_length:
  "FindUsedLayouts p = Inr used \<Longrightarrow> length used = length (slideLayoutRels p)"
  by (auto simp: FindUsedLayouts_def dest: markRelationships_length)

lemma FindUsedLayouts_marks:
  "FindUsedLayouts p = Inr used \<Longrightarrow> i < length (slideLayoutRels p) \<Longrightarrow>
   used ! i \<longleftrightarrow>
     (\<exists>rs\<in>set (slideRels p). \<exists>r\<in>set (Relationship rs).
        rType r = slideLayoutType \<and> fst (getObjectNumberFromFilename (rTarget r)) = int i + 1)"
  using markRelationships_marks
    [of slideLayoutType "slideRels p" "replicate (length (slideLayoutRels p)) False" used i]
  by (simp add: FindUsedLayouts_def targetNumber_def)

section \<open>C1: layout reachability\<close>

text \<open>
  Claim C1. When \<open>FindUsedLayouts\<close> returns, its result has one flag for every layout
  slot, and the flag of slot \<open>i\<close> (counted from 1) is true if and only if the set of
  some slide holds a relationship of the slideLayout type whose target has the number
  \<open>i\<close>. When \<open>RemoveUnusedLayouts\<close> returns, it has replaced by the empty set exactly
  the slots no slide references, and has kept the others as they were. The result of
  \<open>FindUsedLayouts\<close> is the same on two documents with the same slide sets and the
  same number of layout slots: the master sets and the master trees have no part in it.
\<close>

theorem FindUsedLayouts_sound:
  "(FindUsedLayouts p = Inr used \<longrightarrow>
      length used = length (slideLayoutRels p) \<and>
      (\<forall>i<length (slideLayoutRels p).
         used ! i \<longleftrightarrow>
           (\<exists>rs\<in>set (slideRels p). \<exists>r\<in>set (Relationship rs).
              rType r = slideLayoutType \<and>
              fst (getObjectNumberFromFilename (rTarget r)) = int i + 1))) \<and>
   (RemoveUnusedLayouts p = Inr p' \<longrightarrow>
      length (slideLayoutRels p') = length (slideLayoutRels p) \<and>
      (\<forall>i<length (slideLayoutRels p).
         slideLayoutRels p' ! i =
           (if \<exists>rs\<in>set (slideRels p). \<exists>r\<in>set (Relationship rs).
                 rType r = slideLayoutType \<and>
                 fst (getObjectNumberFromFilename (rTarget r)) = int i + 1
            then slideLayoutRels p ! i else emptyRelationships))) \<and>
   (slideRels q = slideRels p \<and> length (slideLayoutRels q) = length (slideLayoutRels p) \<longrightarrow>
      FindUsedLayouts q = FindUsedLayouts p)"
proof (intro conjI impI)
  assume u: "FindUsedLayouts p = Inr used"
  then show "length used = length (slideLayoutRels p)" by (rule FindUsedLayouts_length)
  show "\<forall>i<length (slideLayoutRels p).
         used ! i \<longleftrightarrow>
           (\<exists>rs\<in>set (slideRels p). \<exists>r\<in>set (Relationship rs).
              rType r = slideLayoutType \<and>
              fst (getObjectNumberFromFilename (rTarget r)) = int i + 1)"
    using FindUsedLayouts_marks [OF u] by blast
next
  assume r: "RemoveUnusedLayouts p = Inr p'"
  then obtain used where u: "FindUsedLayouts p = Inr used"
    and loop: "forUnused removeLayout 0 used p = Inr p'"
    by (auto simp: RemoveUnusedLayouts_def split: sum.splits)
  have len: "length used = length (slideLayoutRels p)"
    using u by (rule FindUsedLayouts_length)
  note eff = forUnused_removeLayout_layouts [OF loop]
  from eff show "length (slideLayoutRels p') = length (slideLayoutRels p)" by simp
  show "\<forall>i<length (slideLayoutRels p).
         slideLayoutRels p' ! i =
           (if \<exists>rs\<in>set (slideRels p). \<exists>r\<in>set (Relationship rs).
                 rType r = slideLayoutType \<and>
                 fst (getObjectNumberFromFilename (rTarget r)) = int i + 1
            then slideLayoutRels p ! i else emptyRelationships)"
  proof (intro allI impI)
    fix i assume i: "i < length (slideLayoutRels p)"
    have "slideLayoutRels p' ! i =
        (if used ! i then slideLayoutRels p ! i else emptyRelationships)"
      using eff i len by simp
    then show "slideLayoutRels p' ! i =
           (if \<exists>rs\<in>set (slideRels p). \<exists>r\<in>set (Relationship rs).
                 rType r = slideLayoutType \<and>
                 fst (getObjectNumberFromFilename (rTarget r)) = int i + 1
            then slideLayoutRels p ! i else emptyRelationships)"
      unfolding FindUsedLayouts_marks [OF u i] .
  qed
next
  assume "slideRels q = slideRels p \<and> length (slideLayoutRels q) = length (slideLayoutRels p)"
  then show "FindUsedLayouts q = FindUsedLayouts p" by (simp add: FindUsedLayouts_def)
qed

lemma twoLayoutDoc_used: "FindUsedLayouts twoLayoutDoc = Inr [True, False]"
  by code_simp

lemma twoLayoutDoc_layout_slots: "map_sum id slideLayoutRels (RemoveUnusedLayouts twoLayoutDoc) =
      Inr [rels [rel ''rId1'' slideMasterType ''../slideMasters/slideMaster1.xml''],
           emptyRelationships]"
  by code_simp

theorem FindUsedLayouts_sound_witness:
  "FindUsedLayouts twoLayoutDoc = Inr [True, False] \<and>
   (\<exists>p'. RemoveUnusedLayouts twoLayoutDoc = Inr p' \<and>
      slideLayoutRels p' =
        [rels [rel ''rId1'' slideMasterType ''../slideMasters/slideMaster1.xml''],
         emptyRelationships]) \<and>
   FindUsedLayouts (twoLayoutDoc\<lparr>slideMasterRels := [], slideMasters := []\<rparr>) =
     Inr [True, False]"
proof -
  obtain p' where p': "RemoveUnusedLayouts twoLayoutDoc = Inr p'"
    and slots: "slideLayoutRels p' =
        [rels [rel ''rId1'' slideMasterType ''../slideMasters/slideMaster1.xml''],
         emptyRelationships]"
    using returns_with [OF twoLayoutDoc_layout_slots] by blast
  have same: "slideRels (twoLayoutDoc\<lparr>slideMasterRels := [], slideMasters := []\<rparr>) = slideRels twoLayoutDoc \<and>
     length (slideLayoutRels (twoLayoutDoc\<lparr>slideMasterRels := [], slideMasters := []\<rparr>)) =
     length (slideLayoutRels twoLayoutDoc)"
    by simp
  have "FindUsedLayouts (twoLayoutDoc\<lparr>slideMasterRels := [], slideMasters := []\<rparr>) =
      FindUsedLayouts twoLayoutDoc"
    using FindUsedLayouts_sound
      [of twoLayoutDoc "[True, False]" p' "twoLayoutDoc\<lparr>slideMasterRels := [], slideMasters := []\<rparr>"]
      same
    by blast
  then have third: "FindUsedLayouts (twoLayoutDoc\<lparr>slideMasterRels := [], slideMasters := []\<rparr>) =
     Inr [True, False]"
    by (simp only: twoLayoutDoc_used)
  from p' slots have second: "\<exists>p'. RemoveUnusedLayouts twoLayoutDoc = Inr p' \<and>
      slideLayoutRels p' =
        [rels [rel ''rId1'' slideMasterType ''../slideMasters/slideMaster1.xml''],
         emptyRelationships]"
    by blast
  from twoLayoutDoc_used second third show ?thesis by (intro conjI)
qed

section \<open>C4: a relationship file whose name holds no number\<close>

lemma number_foo:
  "getObjectNumberFromFilename ''ppt/slides/_rels/foo.xml.rels'' =
     (0, Some ''invalid file name ppt/slides/_rels/foo.xml.rels'')"
  by code_simp

lemma parseEntry_foo:
  "parseEntry cd p
     \<lparr>Name = ''ppt/slides/_rels/foo.xml.rels'', UncompressedSize64 = n, Data = bytes\<rparr> =
     (case unmarshalRelationships cd bytes of
        None \<Rightarrow> Inl Fatal
      | Some r \<Rightarrow> Inl IndexOutOfRange)"
  by (simp add: parseEntry_def parseAllRelationships_def parseRelationships_def HasPrefix_def
      number_foo updateRelationships_def split: option.splits)

text \<open>
  Claim C4 says that an entry of a \<open>_rels\<close> area whose name does not follow the numbering
  pattern is reported, left out of the slots, and that the reader goes on with the next
  entries. The program does otherwise: \<open>parseAllRelationships\<close> drops the error of
  \<open>getObjectNumberFromFilename\<close> and hands the number 0 to \<open>updateRelationships\<close>, whose
  write to slot \<open>0 - 1\<close> panics. With the entry \<open>ppt/slides/_rels/foo.xml.rels\<close> first
  in the archive, \<open>ParseFile\<close> stops there, whatever the document held before and
  whatever entries follow: with \<open>log.Fatal\<close> when the entry does not decode, with the
  panic when it does.
\<close>

theorem ParseFile_naming_error_stops:
  "ParseFile cd p
     (\<lparr>Name = ''ppt/slides/_rels/foo.xml.rels'', UncompressedSize64 = n, Data = bytes\<rparr> # files) =
     (case unmarshalRelationships cd bytes of
        None \<Rightarrow> Inl Fatal
      | Some r \<Rightarrow> Inl IndexOutOfRange)"
  by (simp add: ParseFile_def parseEntry_foo split: option.splits)

section \<open>C3: a picture whose extension is written in capitals\<close>

lemma upperTiffDoc_converted:
  "map_sum id
     (\<lambda>p. (medias p ''ppt/media/image1.TIFF'', medias p ''ppt/media/image1.png'', slideRels p))
     (ConvertPictures exampleCodec upperTiffDoc) =
   Inr (None, None, [rels [rel ''rId1'' imageType ''../media/image1.TIFF'']])"
  by code_simp

text \<open>
  Claim C3 says that after \<open>ConvertPictures\<close> a picture with the extension \<open>.tiff\<close> (in
  any case of the letters) has left the media index under its old key, is there under
  the key with \<open>.png\<close> and with its new bytes, and that every relationship that had its
  old name as target has the new one. The program tests the extension after
  \<open>strings.ToLower\<close> and then replaces the text \<open>.tiff\<close> as it is written: for
  \<open>ppt/media/image1.TIFF\<close> the new key is the old key, the entry it has just stored is
  deleted again, and the relationship of the slide keeps its target. The picture is in
  the index under neither key.
\<close>

theorem ConvertPictures_upper_case_extension:
  "ToLower (Ext ''ppt/media/image1.TIFF'') = ''.tiff'' \<and>
   (\<exists>p'. ConvertPictures exampleCodec upperTiffDoc = Inr p' \<and>
      medias p' ''ppt/media/image1.TIFF'' = None \<and>
      medias p' ''ppt/media/image1.png'' = None \<and>
      slideRels p' = [rels [rel ''rId1'' imageType ''../media/image1.TIFF'']])"
proof -
  have ext: "ToLower (Ext ''ppt/media/image1.TIFF'') = ''.tiff''"
    by code_simp
  obtain p' where run: "ConvertPictures exampleCodec upperTiffDoc = Inr p'"
    and fields: "(medias p' ''ppt/media/image1.TIFF'', medias p' ''ppt/media/image1.png'',
        slideRels p') = (None, None, [rels [rel ''rId1'' imageType ''../media/image1.TIFF'']])"
    using returns_with [OF upperTiffDoc_converted] by blast
  from fields have "medias p' ''ppt/media/image1.TIFF'' = None"
    and "medias p' ''ppt/media/image1.png'' = None"
    and "slideRels p' = [rels [rel ''rId1'' imageType ''../media/image1.TIFF'']]"
    by simp_all
  with ext run show ?thesis by blast
qed

section \<open>The transcoder: which targets are rewritten\<close>






section \<open>C6: the targets \<open>ConvertPictures\<close> rewrites\<close>





section \<open>The writer: the copy loop\<close>

lemma HasPrefix_iff: "HasPrefix s pre \<longleftrightarrow> (\<exists>rest. s = pre @ rest)"
proof
  assume "HasPrefix s pre"
  then have "s = pre @ drop (length pre) s"
    by (metis HasPrefix_def append_take_drop_id)
  then show "\<exists>rest. s = pre @ rest" ..
next
  assume "\<exists>rest. s = pre @ rest"
  then show "HasPrefix s pre" by (auto simp: HasPrefix_def)
qed

lemma layout_entry_not_media:
  assumes "HasPrefix name ''ppt/slideLayouts/''"
  shows "\<not> HasPrefix name ''ppt/media/''"
proof -
  from assms obtain rest where "name = ''ppt/slideLayouts/'' @ rest"
    unfolding HasPrefix_iff ..
  then show ?thesis by (simp add: HasPrefix_def)
qed

lemma layout_entry_rewritten:
  assumes "HasPrefix name ''ppt/slideLayouts/''"
  shows "rewritten name \<longleftrightarrow> HasPrefix name ''ppt/slideLayouts/_rels/''"
proof -
  from assms obtain rest where "name = ''ppt/slideLayouts/'' @ rest"
    unfolding HasPrefix_iff ..
  then show ?thesis by (simp add: HasPrefix_def rewritten_def)
qed


lemma layoutRemoved_returns:
  "(\<exists>b. layoutRemoved p name = Inr b) \<longleftrightarrow> layoutInRange p name"
  by (auto simp: layoutRemoved_def layoutInRange_def Let_def)

lemma layoutRemoved_failure:
  "layoutRemoved p name = Inl e \<Longrightarrow> e = IndexOutOfRange"
  by (auto simp: layoutRemoved_def Let_def split: if_splits)

lemma copyFile_returns: "(\<exists>out. copyFile f rest = Inr out) \<longleftrightarrow> (\<exists>out. rest = Inr out)"
  by (cases rest) (auto simp: copyFile_def)

lemma copyFile_failure: "copyFile f rest = Inl e \<longleftrightarrow> rest = Inl e"
  by (cases rest) (auto simp: copyFile_def)

lemma copyFiles_step:
  "copyFiles p (f # fs) = copyFiles p fs \<or> copyFiles p (f # fs) = copyFile f (copyFiles p fs) \<or>
   copyFiles p (f # fs) = Inl IndexOutOfRange"
proof (cases "layoutRemoved p (Name f)")
  case (Inl e)
  then have "e = IndexOutOfRange" by (rule layoutRemoved_failure)
  with Inl show ?thesis by simp
next
  case (Inr b)
  then show ?thesis by simp
qed

lemma copyFiles_failure:
  "copyFiles p fs = Inl e \<Longrightarrow> e = IndexOutOfRange"
proof (induction fs)
  case Nil
  then show ?case by simp
next
  case (Cons f fs)
  consider (skip) "copyFiles p (f # fs) = copyFiles p fs"
    | (copy) "copyFiles p (f # fs) = copyFile f (copyFiles p fs)"
    | (panic) "copyFiles p (f # fs) = Inl IndexOutOfRange"
    using copyFiles_step by blast
  then show ?case
  proof cases
    case skip
    with Cons.prems have "copyFiles p fs = Inl e" by metis
    then show ?thesis by (rule Cons.IH)
  next
    case copy
    with Cons.prems have "copyFile f (copyFiles p fs) = Inl e" by metis
    then have "copyFiles p fs = Inl e" by (simp only: copyFile_failure)
    then show ?thesis by (rule Cons.IH)
  next
    case panic
    with Cons.prems have "Inl e = (Inl IndexOutOfRange :: failure + entry list)" by metis
    then show ?thesis by simp
  qed
qed


lemma copyFiles_returns:
  "(\<exists>out. copyFiles p fs = Inr out) \<longleftrightarrow>
   (\<forall>f\<in>set fs. layoutBody (Name f) \<longrightarrow> layoutInRange p (Name f))"
proof (induction fs)
  case Nil
  then show ?case by simp
next
  case (Cons f fs)
  show ?case
  proof (cases "HasPrefix (Name f) ''ppt/slideLayouts/''")
    case False
    then have nb: "\<not> layoutBody (Name f)" by (simp add: layoutBody_def)
    show ?thesis using False nb Cons.IH by (simp add: copyFile_returns)
  next
    case True
    note nm = layout_entry_not_media [OF True]
    show ?thesis
    proof (cases "HasPrefix (Name f) ''ppt/slideLayouts/_rels/''")
      case inrels: True
      then have "rewritten (Name f)" using layout_entry_rewritten [OF True] by simp
      moreover have "\<not> layoutBody (Name f)" using inrels by (simp add: layoutBody_def)
      ultimately show ?thesis using Cons.IH by simp
    next
      case False
      then have nr: "\<not> rewritten (Name f)" using layout_entry_rewritten [OF True] by simp
      have lb: "layoutBody (Name f)" using True False by (simp add: layoutBody_def)
      show ?thesis
      proof (cases "layoutRemoved p (Name f)")
        case (Inl e)
        then have "\<not> layoutInRange p (Name f)"
          using layoutRemoved_returns [of p "Name f"] by auto
        then show ?thesis using Inl nr nm True lb by auto
      next
        case (Inr b)
        then have "layoutInRange p (Name f)"
          using layoutRemoved_returns [of p "Name f"] by auto
        then show ?thesis using Inr nr nm True lb Cons.IH by (simp add: copyFile_returns)
      qed
    qed
  qed
qed


section \<open>C10: when the writer returns\<close>

text \<open>
  Claim C10. For every entry of the source archive under \<open>ppt/slideLayouts/\<close> and
  outside \<open>ppt/slideLayouts/_rels/\<close>, \<open>SaveFile\<close> reads \<open>slideLayoutRels[n - 1]\<close> with
  no bounds check, \<open>n\<close> being the number of the entry name (0 when there is none). The
  write phase returns only if every such entry has \<open>1 \<le> n \<le> length slideLayoutRels\<close>
  (exactly then, for a document that has its presentation tree); when one entry has
  not, the run stops with an index out of range.
\<close>

theorem SaveFile_returns_iff:
  "((\<exists>out. SaveFile keys p = Inr out) \<longleftrightarrow>
      (\<forall>f\<in>set (sourceFile p).
         HasPrefix (Name f) ''ppt/slideLayouts/'' \<and>
         \<not> HasPrefix (Name f) ''ppt/slideLayouts/_rels/'' \<longrightarrow>
           1 \<le> fst (getObjectNumberFromFilename (Name f)) \<and>
           fst (getObjectNumberFromFilename (Name f)) \<le> int (length (slideLayoutRels p))) \<and>
      presentation p \<noteq> None) \<and>
   (\<not> (\<forall>f\<in>set (sourceFile p).
         HasPrefix (Name f) ''ppt/slideLayouts/'' \<and>
         \<not> HasPrefix (Name f) ''ppt/slideLayouts/_rels/'' \<longrightarrow>
           1 \<le> fst (getObjectNumberFromFilename (Name f)) \<and>
           fst (getObjectNumberFromFilename (Name f)) \<le> int (length (slideLayoutRels p))) \<longrightarrow>
      SaveFile keys p = Inl IndexOutOfRange)"
proof -
  let ?pre = "\<forall>f\<in>set (sourceFile p).
         HasPrefix (Name f) ''ppt/slideLayouts/'' \<and>
         \<not> HasPrefix (Name f) ''ppt/slideLayouts/_rels/'' \<longrightarrow>
           1 \<le> fst (getObjectNumberFromFilename (Name f)) \<and>
           fst (getObjectNumberFromFilename (Name f)) \<le> int (length (slideLayoutRels p))"
  have copy: "(\<exists>out. copyFiles p (sourceFile p) = Inr out) \<longleftrightarrow> ?pre"
    unfolding copyFiles_returns layoutBody_def layoutInRange_def ..
  have first: "(\<exists>out. SaveFile keys p = Inr out) \<longleftrightarrow> ?pre \<and> presentation p \<noteq> None"
  proof (cases "copyFiles p (sourceFile p)")
    case (Inl e)
    then have "\<not> ?pre" using copy by simp
    then show ?thesis using Inl by (simp add: SaveFile_def)
  next
    case (Inr out)
    then have "?pre" using copy by simp
    then show ?thesis using Inr by (simp add: SaveFile_def split: option.splits)
  qed
  have second: "\<not> ?pre \<longrightarrow> SaveFile keys p = Inl IndexOutOfRange"
  proof
    assume "\<not> ?pre"
    then have "\<nexists>out. copyFiles p (sourceFile p) = Inr out" using copy by simp
    then obtain e where e: "copyFiles p (sourceFile p) = Inl e"
      by (cases "copyFiles p (sourceFile p)") auto
    then have "e = IndexOutOfRange" by (rule copyFiles_failure)
    with e show "SaveFile keys p = Inl IndexOutOfRange" by (simp add: SaveFile_def)
  qed
  from first second show ?thesis by blast
qed

theorem SaveFile_returns_iff_witness:
  "(\<exists>out. SaveFile [] layoutBodyDoc = Inr out) \<and>
   SaveFile [] (layoutBodyDoc\<lparr>slideLayoutRels := []\<rparr>) = Inl IndexOutOfRange"
proof -
  have good: "\<forall>f\<in>set (sourceFile layoutBodyDoc).
         HasPrefix (Name f) ''ppt/slideLayouts/'' \<and>
         \<not> HasPrefix (Name f) ''ppt/slideLayouts/_rels/'' \<longrightarrow>
           1 \<le> fst (getObjectNumberFromFilename (Name f)) \<and>
           fst (getObjectNumberFromFilename (Name f)) \<le> int (length (slideLayoutRels layoutBodyDoc))"
    by code_simp
  have pres: "presentation layoutBodyDoc \<noteq> None"
    by code_simp
  have bad: "\<not> (\<forall>f\<in>set (sourceFile (layoutBodyDoc\<lparr>slideLayoutRels := []\<rparr>)).
         HasPrefix (Name f) ''ppt/slideLayouts/'' \<and>
         \<not> HasPrefix (Name f) ''ppt/slideLayouts/_rels/'' \<longrightarrow>
           1 \<le> fst (getObjectNumberFromFilename (Name f)) \<and>
           fst (getObjectNumberFromFilename (Name f)) \<le>
             int (length (slideLayoutRels (layoutBodyDoc\<lparr>slideLayoutRels := []\<rparr>))))"
    by code_simp
  from good pres have "\<exists>out. SaveFile [] layoutBodyDoc = Inr out"
    using SaveFile_returns_iff [of "[]" layoutBodyDoc] by blast
  moreover from bad have "SaveFile [] (layoutBodyDoc\<lparr>slideLayoutRels := []\<rparr>) = Inl IndexOutOfRange"
    using SaveFile_returns_iff [of "[]" "layoutBodyDoc\<lparr>slideLayoutRels := []\<rparr>"] by blast
  ultimately show ?thesis by (intro conjI)
qed

end
